theory Spec2Isabelle
  imports Main
begin

section \<open>Data model\<close>

text \<open>
  Embedding of \<^verbatim>\<open>simple_document_extractor.py\<close>.

  A Python \<^verbatim>\<open>str\<close> is represented by its UTF-8 encoding, a HOL \<open>string\<close> (one
  \<open>char\<close> per byte); concatenation and equality of \<^verbatim>\<open>str\<close> values are then
  concatenation and equality of the encodings, and every literal of the source is ASCII.
  A \<^verbatim>\<open>bytes\<close> value is a \<open>string\<close> as well.

  A computation that may raise is a value of \<open>string + 'a\<close>: \<open>Inl m\<close> is a raised
  exception \<^verbatim>\<open>e\<close> of class \<^verbatim>\<open>Exception\<close> with \<^verbatim>\<open>str(e) = m\<close>, \<open>Inr v\<close> is
  the returned value.  Only exceptions deriving from \<^verbatim>\<open>Exception\<close> are modelled
  (those are the ones every \<^verbatim>\<open>except Exception\<close> clause of the source catches).

  The return value of \<^verbatim>\<open>process_file\<close>, a \<^verbatim>\<open>Dict[str, str]\<close>, is a map from
  keys to values.
\<close>

type_synonym path = string
type_synonym bytes = string
type_synonym dict = "string \<rightharpoonup> string"

text \<open>
  The parsing libraries and the file system are not part of the repository; they are
  the fields of a record, so that every theorem holds for every behaviour of theirs.
  An object whose only use in the source is one method call is represented by the outcome
  of that call:
  \<^item> \<open>fs\<close>: the file system; \<open>fs w p\<close> is the outcome of opening \<open>p\<close> and reading
    all its bytes (\<open>Inl\<close>: the \<^verbatim>\<open>OSError\<close> message).  A library that is given the
    path opens the file itself; that is modelled by the same lookup.
  \<^item> \<open>pdf_reader\<close>: \<^verbatim>\<open>PyPDF2.PdfReader(file)\<close>; on success the list
    \<^verbatim>\<open>pdf_reader.pages\<close>, each page being the outcome of
    \<^verbatim>\<open>pdf_reader.pages[page_num].extract_text()\<close>.
  \<^item> \<open>docx_document\<close>: \<^verbatim>\<open>docx.Document(file_path)\<close>; on success the list of
    \<^verbatim>\<open>paragraph.text\<close> over \<^verbatim>\<open>doc.paragraphs\<close>.
  \<^item> \<open>mammoth_extract_raw_text\<close>: \<^verbatim>\<open>mammoth.extract_raw_text(docx_file)\<close>; on
    success \<^verbatim>\<open>result.value\<close>.
  \<^item> \<open>read_csv\<close>: \<^verbatim>\<open>pd.read_csv(file_path)\<close>; on success the data frame, which is
    the outcome of its \<^verbatim>\<open>to_string()\<close>.
  \<^item> \<open>read_excel\<close>: \<^verbatim>\<open>pd.read_excel(file_path, sheet_name=None)\<close>; on success
    the ordered dictionary from sheet names to data frames, an association list in
    the workbook's order.
  \<^item> \<open>pptx_presentation\<close>: \<^verbatim>\<open>pptx.Presentation(file_path)\<close>; on success
    \<^verbatim>\<open>pres.slides\<close>, a slide being the list \<^verbatim>\<open>slide.shapes\<close> and a shape being
    \<open>Some t\<close> when it has the attribute \<^verbatim>\<open>text\<close> with value \<open>t\<close>, else \<open>None\<close>.
  \<^item> \<open>soup_get_text\<close>: \<^verbatim>\<open>BeautifulSoup(s, 'html.parser').get_text()\<close>.
  \<^item> \<open>unicode_lower\<close>: \<^verbatim>\<open>str.lower()\<close> on a string with a non-ASCII character.
  \<^item> \<open>tmp_name\<close>: the name that \<^verbatim>\<open>tempfile.NamedTemporaryFile\<close> hands out.
\<close>

record world =
  fs :: "path \<Rightarrow> string + bytes"
  pdf_reader :: "bytes \<Rightarrow> string + (string + string) list"
  docx_document :: "bytes \<Rightarrow> string + string list"
  mammoth_extract_raw_text :: "bytes \<Rightarrow> string + string"
  read_csv :: "bytes \<Rightarrow> string + (string + string)"
  read_excel :: "bytes \<Rightarrow> string + (string \<times> (string + string)) list"
  pptx_presentation :: "bytes \<Rightarrow> string + string option list list"
  soup_get_text :: "string \<Rightarrow> string + string"
  unicode_lower :: "string \<Rightarrow> string"
  tmp_name :: path

section \<open>Text-mode reading\<close>

text \<open>
  \<^verbatim>\<open>open(file_path, 'r', encoding='utf-8', errors='replace')\<close> followed by
  \<^verbatim>\<open>file.read()\<close> decodes the bytes of the file as UTF-8 with the error handler
  \<^verbatim>\<open>replace\<close> and translates line endings (universal newlines).

  \<open>utf8_step\<close> looks at the sequence that starts the input, as the decoder of the
  interpreter does: \<open>Valid k\<close> when the first \<open>Suc k\<close> bytes encode one code point,
  \<open>Invalid k\<close> when the first \<open>Suc k\<close> bytes are the extent of one decoding error
  (an invalid start byte, a start byte followed by an invalid continuation byte, or a
  sequence cut off by the end of the data).  Overlong forms, surrogates and code points
  above U+10FFFF are rejected at the second byte.
\<close>

datatype utf8_result = Valid nat | Invalid nat

definition is_continuation :: "char \<Rightarrow> bool" where
  "is_continuation c = (128 \<le> (of_char c :: nat) \<and> (of_char c :: nat) < 192)"

definition utf8_step :: "char \<Rightarrow> string \<Rightarrow> utf8_result" where
  "utf8_step c0 rest =
     (let ch = (of_char c0 :: nat) in
      if ch < 128 then Valid 0
      else if ch < 194 then Invalid 0
      else if ch < 224 then
        (case rest of
           [] \<Rightarrow> Invalid 0
         | c1 # _ \<Rightarrow> if is_continuation c1 then Valid 1 else Invalid 0)
      else if ch < 240 then
        (case rest of
           [] \<Rightarrow> Invalid 0
         | c1 # rest1 \<Rightarrow>
             if \<not> is_continuation c1
                \<or> (if (of_char c1 :: nat) < 160 then ch = 224 else ch = 237)
             then Invalid 0
             else
               (case rest1 of
                  [] \<Rightarrow> Invalid 1
                | c2 # _ \<Rightarrow> if is_continuation c2 then Valid 2 else Invalid 1))
      else if ch < 245 then
        (case rest of
           [] \<Rightarrow> Invalid 0
         | c1 # rest1 \<Rightarrow>
             if \<not> is_continuation c1
                \<or> (if (of_char c1 :: nat) < 144 then ch = 240 else ch = 244)
             then Invalid 0
             else
               (case rest1 of
                  [] \<Rightarrow> Invalid 1
                | c2 # rest2 \<Rightarrow>
                    if \<not> is_continuation c2 then Invalid 1
                    else
                      (case rest2 of
                         [] \<Rightarrow> Invalid 2
                       | c3 # _ \<Rightarrow> if is_continuation c3 then Valid 3 else Invalid 2)))
      else Invalid 0)"

text \<open>The replacement marker U+FFFD, in UTF-8.\<close>

definition replacement_marker :: string where
  "replacement_marker = [CHR 0xEF, CHR 0xBF, CHR 0xBD]"

text \<open>\<^verbatim>\<open>bytes.decode('utf-8', errors='replace')\<close>: never raises.\<close>

function utf8_decode_replace :: "bytes \<Rightarrow> string" where
  "utf8_decode_replace [] = []"
| "utf8_decode_replace (c # cs) =
     (case utf8_step c cs of
        Valid k \<Rightarrow> c # take k cs @ utf8_decode_replace (drop k cs)
      | Invalid k \<Rightarrow> replacement_marker @ utf8_decode_replace (drop k cs))"
  by pat_completeness auto
termination
  by (relation "measure length") auto

text \<open>
  \<^verbatim>\<open>bytes.decode('utf-8')\<close> with the default handler \<^verbatim>\<open>strict\<close>, for comparison:
  it raises \<^verbatim>\<open>UnicodeDecodeError\<close> at the first error.
\<close>

function utf8_decode_strict :: "bytes \<Rightarrow> string + string" where
  "utf8_decode_strict [] = Inr []"
| "utf8_decode_strict (c # cs) =
     (case utf8_step c cs of
        Valid k \<Rightarrow>
          (case utf8_decode_strict (drop k cs) of
             Inl e \<Rightarrow> Inl e
           | Inr s \<Rightarrow> Inr (c # take k cs @ s))
      | Invalid k \<Rightarrow> Inl ''UnicodeDecodeError'')"
  by pat_completeness auto
termination
  by (relation "measure length") auto

text \<open>
  Universal newlines, the default of text mode: \<^verbatim>\<open>\r\n\<close> and a lone \<^verbatim>\<open>\r\<close>
  are read as \<^verbatim>\<open>\n\<close>.
\<close>

fun universal_newlines :: "string \<Rightarrow> string" where
  "universal_newlines [] = []"
| "universal_newlines [c] = (if c = CHR 0x0D then [CHR ''\<newline>''] else [c])"
| "universal_newlines (c # d # cs) =
     (if c = CHR 0x0D \<and> d = CHR ''\<newline>'' then CHR ''\<newline>'' # universal_newlines cs
      else if c = CHR 0x0D then CHR ''\<newline>'' # universal_newlines (d # cs)
      else c # universal_newlines (d # cs))"

definition read_text :: "world \<Rightarrow> path \<Rightarrow> string + string" where
  "read_text w file_path =
     (case fs w file_path of
        Inl e \<Rightarrow> Inl e
      | Inr b \<Rightarrow> Inr (universal_newlines (utf8_decode_replace b)))"

section \<open>The format handlers\<close>

text \<open>
  Every handler has the shape
  \<^verbatim>\<open>try: BODY  except Exception as e: return f"Error extracting text from F: {str(e)}"\<close>.
  The body is the function with suffix \<open>_try\<close>; the handler maps a raised exception
  to the message.
\<close>

definition handler :: "string \<Rightarrow> string + string \<Rightarrow> string" where
  "handler label body =
     (case body of
        Inr text \<Rightarrow> text
      | Inl e \<Rightarrow> ''Error extracting text from '' @ label @ '': '' @ e)"

text \<open>The loop over \<^verbatim>\<open>range(len(pdf_reader.pages))\<close>, with the accumulator \<^verbatim>\<open>text\<close>.\<close>

fun pdf_pages_loop :: "(string + string) list \<Rightarrow> string \<Rightarrow> string + string" where
  "pdf_pages_loop [] text = Inr text"
| "pdf_pages_loop (page # pages) text =
     (case page of
        Inl e \<Rightarrow> Inl e
      | Inr t \<Rightarrow> pdf_pages_loop pages (text @ t @ ''\<newline>\<newline>''))"

definition extract_from_pdf_try :: "world \<Rightarrow> path \<Rightarrow> string + string" where
  "extract_from_pdf_try w file_path =
     (case fs w file_path of
        Inl e \<Rightarrow> Inl e
      | Inr file \<Rightarrow>
          (case pdf_reader w file of
             Inl e \<Rightarrow> Inl e
           | Inr pages \<Rightarrow> pdf_pages_loop pages ''''))"

definition extract_from_pdf :: "world \<Rightarrow> path \<Rightarrow> string" where
  "extract_from_pdf w file_path = handler ''PDF'' (extract_from_pdf_try w file_path)"

text \<open>\<^verbatim>\<open>sep.join(xs)\<close> of Python.\<close>

fun join :: "string \<Rightarrow> string list \<Rightarrow> string" where
  "join sep [] = ''''"
| "join sep [x] = x"
| "join sep (x # y # ys) = x @ sep @ join sep (y # ys)"

definition extract_from_docx_try :: "world \<Rightarrow> path \<Rightarrow> string + string" where
  "extract_from_docx_try w file_path =
     (case fs w file_path of
        Inl e \<Rightarrow> Inl e
      | Inr file \<Rightarrow>
          (case docx_document w file of
             Inl e \<Rightarrow> Inl e
           | Inr paragraphs \<Rightarrow> Inr (join ''\<newline>\<newline>'' paragraphs)))"

definition extract_from_docx :: "world \<Rightarrow> path \<Rightarrow> string" where
  "extract_from_docx w file_path = handler ''DOCX'' (extract_from_docx_try w file_path)"

definition extract_from_doc_try :: "world \<Rightarrow> path \<Rightarrow> string + string" where
  "extract_from_doc_try w file_path =
     (case fs w file_path of
        Inl e \<Rightarrow> Inl e
      | Inr docx_file \<Rightarrow> mammoth_extract_raw_text w docx_file)"

definition extract_from_doc :: "world \<Rightarrow> path \<Rightarrow> string" where
  "extract_from_doc w file_path = handler ''DOC'' (extract_from_doc_try w file_path)"

definition extract_from_txt_try :: "world \<Rightarrow> path \<Rightarrow> string + string" where
  "extract_from_txt_try w file_path = read_text w file_path"

definition extract_from_txt :: "world \<Rightarrow> path \<Rightarrow> string" where
  "extract_from_txt w file_path = handler ''TXT'' (extract_from_txt_try w file_path)"

definition extract_from_csv_try :: "world \<Rightarrow> path \<Rightarrow> string + string" where
  "extract_from_csv_try w file_path =
     (case fs w file_path of
        Inl e \<Rightarrow> Inl e
      | Inr file \<Rightarrow>
          (case read_csv w file of
             Inl e \<Rightarrow> Inl e
           | Inr df \<Rightarrow> df))"

definition extract_from_csv :: "world \<Rightarrow> path \<Rightarrow> string" where
  "extract_from_csv w file_path = handler ''CSV'' (extract_from_csv_try w file_path)"

text \<open>The loop over \<^verbatim>\<open>df.items()\<close>, with the accumulator \<^verbatim>\<open>result\<close>.\<close>

fun excel_sheets_loop :: "(string \<times> (string + string)) list \<Rightarrow> string \<Rightarrow> string + string" where
  "excel_sheets_loop [] result = Inr result"
| "excel_sheets_loop ((sheet_name, sheet_df) # sheets) result =
     (case sheet_df of
        Inl e \<Rightarrow> Inl e
      | Inr table \<Rightarrow>
          excel_sheets_loop sheets
            ((result @ ''Sheet: '' @ sheet_name @ ''\<newline>'') @ table @ ''\<newline>\<newline>''))"

definition extract_from_excel_try :: "world \<Rightarrow> path \<Rightarrow> string + string" where
  "extract_from_excel_try w file_path =
     (case fs w file_path of
        Inl e \<Rightarrow> Inl e
      | Inr file \<Rightarrow>
          (case read_excel w file of
             Inl e \<Rightarrow> Inl e
           | Inr df \<Rightarrow> excel_sheets_loop df ''''))"

definition extract_from_excel :: "world \<Rightarrow> path \<Rightarrow> string" where
  "extract_from_excel w file_path = handler ''Excel'' (extract_from_excel_try w file_path)"

text \<open>The inner loop over \<^verbatim>\<open>slide.shapes\<close> and the outer loop over \<^verbatim>\<open>pres.slides\<close>.\<close>

fun pptx_shapes_loop :: "string option list \<Rightarrow> string \<Rightarrow> string" where
  "pptx_shapes_loop [] text = text"
| "pptx_shapes_loop (shape # shapes) text =
     (case shape of
        Some t \<Rightarrow> pptx_shapes_loop shapes (text @ t @ ''\<newline>'')
      | None \<Rightarrow> pptx_shapes_loop shapes text)"

fun pptx_slides_loop :: "string option list list \<Rightarrow> string \<Rightarrow> string" where
  "pptx_slides_loop [] text = text"
| "pptx_slides_loop (slide # slides) text =
     pptx_slides_loop slides (pptx_shapes_loop slide text @ ''\<newline>'')"

definition extract_from_pptx_try :: "world \<Rightarrow> path \<Rightarrow> string + string" where
  "extract_from_pptx_try w file_path =
     (case fs w file_path of
        Inl e \<Rightarrow> Inl e
      | Inr file \<Rightarrow>
          (case pptx_presentation w file of
             Inl e \<Rightarrow> Inl e
           | Inr slides \<Rightarrow> Inr (pptx_slides_loop slides '''')))"

definition extract_from_pptx :: "world \<Rightarrow> path \<Rightarrow> string" where
  "extract_from_pptx w file_path =
     handler ''PowerPoint'' (extract_from_pptx_try w file_path)"

definition extract_from_html_try :: "world \<Rightarrow> path \<Rightarrow> string + string" where
  "extract_from_html_try w file_path =
     (case read_text w file_path of
        Inl e \<Rightarrow> Inl e
      | Inr s \<Rightarrow> soup_get_text w s)"

definition extract_from_html :: "world \<Rightarrow> path \<Rightarrow> string" where
  "extract_from_html w file_path = handler ''HTML'' (extract_from_html_try w file_path)"

section \<open>The dispatcher\<close>

text \<open>
  \<^verbatim>\<open>process_file\<close> looks its eight callees up in the class \<^verbatim>\<open>DocumentExtractor\<close>
  when it runs.  The callees are a record, each a callable that returns a string or
  raises, so that the \<^verbatim>\<open>except\<close> clause of \<^verbatim>\<open>process_file\<close> is a branch of the
  model; \<open>DocumentExtractor\<close> is the record of the eight handlers above, none of which
  raises.
\<close>

record callees =
  call_pdf :: "path \<Rightarrow> string + string"
  call_docx :: "path \<Rightarrow> string + string"
  call_doc :: "path \<Rightarrow> string + string"
  call_txt :: "path \<Rightarrow> string + string"
  call_csv :: "path \<Rightarrow> string + string"
  call_excel :: "path \<Rightarrow> string + string"
  call_pptx :: "path \<Rightarrow> string + string"
  call_html :: "path \<Rightarrow> string + string"

definition DocumentExtractor :: "world \<Rightarrow> callees" where
  "DocumentExtractor w =
     \<lparr> call_pdf = (\<lambda>p. Inr (extract_from_pdf w p)),
       call_docx = (\<lambda>p. Inr (extract_from_docx w p)),
       call_doc = (\<lambda>p. Inr (extract_from_doc w p)),
       call_txt = (\<lambda>p. Inr (extract_from_txt w p)),
       call_csv = (\<lambda>p. Inr (extract_from_csv w p)),
       call_excel = (\<lambda>p. Inr (extract_from_excel w p)),
       call_pptx = (\<lambda>p. Inr (extract_from_pptx w p)),
       call_html = (\<lambda>p. Inr (extract_from_html w p)) \<rparr>"

text \<open>The body of the \<^verbatim>\<open>try\<close> block of \<^verbatim>\<open>process_file\<close> up to the value of \<^verbatim>\<open>text\<close>.\<close>

definition process_file_try :: "callees \<Rightarrow> path \<Rightarrow> string \<Rightarrow> string + string" where
  "process_file_try cs file_path file_ext =
     (if file_ext = ''.pdf'' then call_pdf cs file_path
      else if file_ext = ''.docx'' then call_docx cs file_path
      else if file_ext = ''.doc'' then call_doc cs file_path
      else if file_ext = ''.txt'' then call_txt cs file_path
      else if file_ext \<in> set [''.csv''] then call_csv cs file_path
      else if file_ext \<in> set [''.xls'', ''.xlsx''] then call_excel cs file_path
      else if file_ext = ''.pptx'' then call_pptx cs file_path
      else if file_ext \<in> set [''.html'', ''.htm''] then call_html cs file_path
      else if file_ext \<in> set [''.jpg'', ''.jpeg'', ''.png'', ''.bmp'', ''.gif'', ''.tiff'']
        then Inr ''Image processing is not supported in this version.''
      else Inr (''Unsupported file format: '' @ file_ext))"

definition process_file_with :: "callees \<Rightarrow> path \<Rightarrow> string \<Rightarrow> dict" where
  "process_file_with cs file_path file_ext =
     (case process_file_try cs file_path file_ext of
        Inr text \<Rightarrow> [''text'' \<mapsto> text]
      | Inl e \<Rightarrow> [''error'' \<mapsto> ''Error processing file: '' @ e])"

definition process_file :: "world \<Rightarrow> path \<Rightarrow> string \<Rightarrow> dict" where
  "process_file w file_path file_ext =
     process_file_with (DocumentExtractor w) file_path file_ext"

section \<open>The HTTP boundary\<close>

text \<open>
  \<^verbatim>\<open>str.lower()\<close>.  On a string of ASCII characters it maps the letters
  \<^verbatim>\<open>A\<close> to \<^verbatim>\<open>Z\<close> to \<^verbatim>\<open>a\<close> to \<^verbatim>\<open>z\<close> and keeps every other character.  On a
  string with a non-ASCII character the result comes from the case tables of the
  interpreter (U+00C9 to U+00E9, the Kelvin sign to \<^verbatim>\<open>k\<close>, a final sigma by its
  context); it is the field \<open>unicode_lower\<close> of the world, applied to the whole
  string.
\<close>

definition is_ascii :: "string \<Rightarrow> bool" where
  "is_ascii s = list_all (\<lambda>c. (of_char c :: nat) < 128) s"

definition ascii_lower_char :: "char \<Rightarrow> char" where
  "ascii_lower_char c =
     (if 65 \<le> (of_char c :: nat) \<and> (of_char c :: nat) \<le> 90
      then char_of ((of_char c :: nat) + 32) else c)"

definition ascii_lower :: "string \<Rightarrow> string" where
  "ascii_lower s = map ascii_lower_char s"

definition lower :: "world \<Rightarrow> string \<Rightarrow> string" where
  "lower w s = (if is_ascii s then ascii_lower s else unicode_lower w s)"

text \<open>\<^verbatim>\<open>s.rfind(c)\<close> for a one-character \<open>c\<close>: the last index of \<open>c\<close>, or \<open>-1\<close>.\<close>

fun rfind_from :: "char \<Rightarrow> string \<Rightarrow> int \<Rightarrow> int \<Rightarrow> int" where
  "rfind_from c [] i found = found"
| "rfind_from c (x # xs) i found = rfind_from c xs (i + 1) (if x = c then i else found)"

definition rfind :: "char \<Rightarrow> string \<Rightarrow> int" where
  "rfind c s = rfind_from c s 0 (- 1)"

text \<open>
  \<^verbatim>\<open>os.path.splitext(p)\<close> (POSIX): the extension starts at the last dot of the last
  path component, unless only dots precede it in that component.
\<close>

definition splitext :: "string \<Rightarrow> string \<times> string" where
  "splitext p =
     (let sepIndex = rfind CHR ''/'' p;
          dotIndex = rfind CHR ''.'' p
      in if dotIndex > sepIndex
            \<and> list_ex (\<lambda>c. c \<noteq> CHR ''.'') (drop (nat (sepIndex + 1)) (take (nat dotIndex) p))
         then (take (nat dotIndex) p, drop (nat dotIndex) p)
         else (p, []))"

text \<open>
  \<^verbatim>\<open>UploadFile\<close>: \<^verbatim>\<open>filename\<close> is optional, \<open>content\<close> is what
  \<^verbatim>\<open>await file.read()\<close> returns.
\<close>

record upload =
  filename :: "string option"
  content :: bytes

datatype http_exception = HTTPException (status_code: nat) (detail: string)

definition enoent :: "path \<Rightarrow> string" where
  "enoent p = ''[Errno 2] No such file or directory: '' @ [CHR 0x27] @ p @ [CHR 0x27]"

text \<open>
  \<^verbatim>\<open>extract_text\<close>, with the class of the callees as a parameter.  The temporary
  file is created empty, the upload is written to it, the extension is taken from the
  file name and lower-cased, \<^verbatim>\<open>process_file\<close> runs, and the \<^verbatim>\<open>finally\<close> clause
  removes the file.  \<^verbatim>\<open>os.path.splitext(None)\<close> raises \<^verbatim>\<open>TypeError\<close>, which the
  \<^verbatim>\<open>except\<close> clause turns into the status 500.  The function returns the response
  and the world it leaves.
\<close>

definition extract_text_with ::
  "(world \<Rightarrow> callees) \<Rightarrow> world \<Rightarrow> upload option \<Rightarrow> (http_exception + dict) \<times> world" where
  "extract_text_with cls w file =
     (case file of
        None \<Rightarrow> (Inl (HTTPException 400 ''No file provided''), w)
      | Some f \<Rightarrow>
          (let temp_file = tmp_name w;
               w1 = w\<lparr>fs := (fs w)(temp_file := Inr [])\<rparr>;
               w2 = w1\<lparr>fs := (fs w1)(temp_file := Inr (content f))\<rparr>;
               response =
                 (case filename f of
                    None \<Rightarrow>
                      Inl (HTTPException 500
                        (''Error processing file: ''
                           @ ''expected str, bytes or os.PathLike object, not NoneType''))
                  | Some name \<Rightarrow>
                      Inr (process_file_with (cls w2) temp_file (lower w (snd (splitext name)))));
               w3 = w2\<lparr>fs := (fs w2)(temp_file := Inl (enoent temp_file))\<rparr>
           in (response, w3)))"

definition extract_text :: "world \<Rightarrow> upload option \<Rightarrow> (http_exception + dict) \<times> world" where
  "extract_text w file = extract_text_with DocumentExtractor w file"

section \<open>Sample inputs\<close>

text \<open>
  A world with one stored file and well-formed documents: a PDF of three pages, a
  workbook with the sheets \<^verbatim>\<open>Sheet1\<close> and \<^verbatim>\<open>Data\<close>; and a world whose stored file
  no library can parse.  Of the non-ASCII strings, \<^verbatim>\<open>str.lower()\<close> is given on the
  one the examples use: a dot and U+00C9 (bytes 2E C3 89) become a dot and U+00E9
  (bytes 2E C3 A9).
\<close>

definition sample_world :: world where
  "sample_world =
     \<lparr> fs = (\<lambda>p. if p = ''/tmp/doc'' then Inr ''caf'' else Inl (enoent p)),
       pdf_reader = (\<lambda>b. Inr [Inr ''alpha'', Inr ''beta'', Inr ''gamma'']),
       docx_document = (\<lambda>b. Inr [''first'', ''second'']),
       mammoth_extract_raw_text = (\<lambda>b. Inr ''legacy''),
       read_csv = (\<lambda>b. Inr (Inr ''   a  b'')),
       read_excel = (\<lambda>b. Inr [(''Sheet1'', Inr ''T1''), (''Data'', Inr ''T2'')]),
       pptx_presentation = (\<lambda>b. Inr [[Some ''title'', None], [Some ''body'']]),
       soup_get_text = (\<lambda>s. Inr s),
       unicode_lower =
         (\<lambda>s. if s = [CHR ''.'', CHR 0xC3, CHR 0x89] then [CHR ''.'', CHR 0xC3, CHR 0xA9] else s),
       tmp_name = ''/tmp/tmpa1'' \<rparr>"

definition corrupt_world :: world where
  "corrupt_world =
     \<lparr> fs = (\<lambda>p. if p = ''/tmp/doc'' then Inr ''%PDF-1.'' else Inl (enoent p)),
       pdf_reader = (\<lambda>b. Inl ''EOF marker not found''),
       docx_document = (\<lambda>b. Inl ''File is not a zip file''),
       mammoth_extract_raw_text = (\<lambda>b. Inl ''File is not a zip file''),
       read_csv = (\<lambda>b. Inl ''Error tokenizing data''),
       read_excel = (\<lambda>b. Inl ''Excel file format cannot be determined''),
       pptx_presentation = (\<lambda>b. Inl ''Package not found''),
       soup_get_text = (\<lambda>s. Inl ''maximum recursion depth exceeded''),
       unicode_lower =
         (\<lambda>s. if s = [CHR ''.'', CHR 0xC3, CHR 0x89] then [CHR ''.'', CHR 0xC3, CHR 0xA9] else s),
       tmp_name = ''/tmp/tmpa1'' \<rparr>"

text \<open>A class whose PDF callee raises outside any handler scope.\<close>

definition faulty_extractor :: "world \<Rightarrow> callees" where
  "faulty_extractor w = (DocumentExtractor w)\<lparr>call_pdf := (\<lambda>p. Inl ''boom'')\<rparr>"

section \<open>Properties\<close>

subsection \<open>The loops and the routes\<close>

lemma pdf_pages_loop_returns:
  "pdf_pages_loop (map Inr ts) acc = Inr (acc @ concat (map (\<lambda>t. t @ ''\<newline>\<newline>'') ts))"
  by (induction ts arbitrary: acc) simp_all

lemma pdf_pages_loop_raises:
  "Inl m \<in> set pages \<Longrightarrow> \<exists>m'. pdf_pages_loop pages acc = Inl m'"
  by (induction pages arbitrary: acc) (auto split: sum.splits)

lemma concat_join:
  "ts \<noteq> [] \<Longrightarrow> concat (map (\<lambda>t. t @ sep) ts) = join sep ts @ sep"
  by (induction sep ts rule: join.induct) simp_all

lemma excel_sheets_loop_returns:
  "excel_sheets_loop (map (\<lambda>(name, table). (name, Inr table)) sheets) result =
   Inr (result @ concat (map (\<lambda>(name, table). ''Sheet: '' @ name @ ''\<newline>'' @ table @ ''\<newline>\<newline>'') sheets))"
  by (induction sheets arbitrary: result) (simp_all add: case_prod_beta)

lemma process_file_pdf: "process_file w p ''.pdf'' = [''text'' \<mapsto> extract_from_pdf w p]"
  by (simp add: process_file_def process_file_with_def process_file_try_def DocumentExtractor_def)
lemma process_file_docx: "process_file w p ''.docx'' = [''text'' \<mapsto> extract_from_docx w p]"
  by (simp add: process_file_def process_file_with_def process_file_try_def DocumentExtractor_def)
lemma process_file_doc: "process_file w p ''.doc'' = [''text'' \<mapsto> extract_from_doc w p]"
  by (simp add: process_file_def process_file_with_def process_file_try_def DocumentExtractor_def)
lemma process_file_txt: "process_file w p ''.txt'' = [''text'' \<mapsto> extract_from_txt w p]"
  by (simp add: process_file_def process_file_with_def process_file_try_def DocumentExtractor_def)
lemma process_file_csv: "process_file w p ''.csv'' = [''text'' \<mapsto> extract_from_csv w p]"
  by (simp add: process_file_def process_file_with_def process_file_try_def DocumentExtractor_def)
lemma process_file_xls: "process_file w p ''.xls'' = [''text'' \<mapsto> extract_from_excel w p]"
  by (simp add: process_file_def process_file_with_def process_file_try_def DocumentExtractor_def)
lemma process_file_xlsx: "process_file w p ''.xlsx'' = [''text'' \<mapsto> extract_from_excel w p]"
  by (simp add: process_file_def process_file_with_def process_file_try_def DocumentExtractor_def)
lemma process_file_pptx: "process_file w p ''.pptx'' = [''text'' \<mapsto> extract_from_pptx w p]"
  by (simp add: process_file_def process_file_with_def process_file_try_def DocumentExtractor_def)
lemma process_file_html: "process_file w p ''.html'' = [''text'' \<mapsto> extract_from_html w p]"
  by (simp add: process_file_def process_file_with_def process_file_try_def DocumentExtractor_def)
lemma process_file_htm: "process_file w p ''.htm'' = [''text'' \<mapsto> extract_from_html w p]"
  by (simp add: process_file_def process_file_with_def process_file_try_def DocumentExtractor_def)

lemmas process_file_routes =
  process_file_pdf process_file_docx process_file_doc process_file_txt process_file_csv
  process_file_xls process_file_xlsx process_file_pptx process_file_html process_file_htm

lemmas handler_defs =
  extract_from_pdf_def extract_from_docx_def extract_from_doc_def extract_from_txt_def
  extract_from_csv_def extract_from_excel_def extract_from_pptx_def extract_from_html_def

lemma handler_raised: "handler label (Inl m) = ''Error extracting text from '' @ label @ '': '' @ m"
  by (simp add: handler_def)

lemma handler_returned: "handler label (Inr text) = text"
  by (simp add: handler_def)

lemma extract_from_pdf_try_reader_raises:
  "fs w p = Inr b \<Longrightarrow> pdf_reader w b = Inl m \<Longrightarrow> extract_from_pdf_try w p = Inl m"
  by (simp add: extract_from_pdf_try_def)

lemma extract_from_pdf_try_page_raises:
  "fs w p = Inr b \<Longrightarrow> pdf_reader w b = Inr pages \<Longrightarrow> Inl m \<in> set pages \<Longrightarrow>
   \<exists>m'. extract_from_pdf_try w p = Inl m'"
  using pdf_pages_loop_raises [of m pages "[]"] by (simp add: extract_from_pdf_try_def)

lemma text_result_eq: "([k \<mapsto> a] = [k \<mapsto> b]) = (a = b)"
  by (auto dest: map_upd_eqD1)

lemma extract_from_pdf_returns:
  "fs w p = Inr b \<Longrightarrow> pdf_reader w b = Inr (map Inr ts) \<Longrightarrow>
   extract_from_pdf w p = concat (map (\<lambda>t. t @ ''\<newline>\<newline>'') ts)"
  by (simp add: extract_from_pdf_def extract_from_pdf_try_def pdf_pages_loop_returns handler_returned)

lemma extract_from_excel_returns:
  "fs w p = Inr b \<Longrightarrow>
   read_excel w b = Inr (map (\<lambda>(name, table). (name, Inr table)) sheets) \<Longrightarrow>
   extract_from_excel w p =
     concat (map (\<lambda>(name, table). ''Sheet: '' @ name @ ''\<newline>'' @ table @ ''\<newline>\<newline>'') sheets)"
  by (simp add: extract_from_excel_def extract_from_excel_try_def excel_sheets_loop_returns
      handler_returned)

lemma sample_world_fs: "fs sample_world ''/tmp/doc'' = Inr ''caf''"
  by (simp add: sample_world_def)

lemma sample_world_pdf:
  "pdf_reader sample_world b = Inr (map Inr [''alpha'', ''beta'', ''gamma''])"
  by (simp add: sample_world_def)

lemma sample_world_excel:
  "read_excel sample_world b =
     Inr (map (\<lambda>(name, table). (name, Inr table)) [(''Sheet1'', ''T1''), (''Data'', ''T2'')])"
  by (simp add: sample_world_def)

lemma sample_world_pdf_text:
  "process_file sample_world ''/tmp/doc'' ''.pdf'' =
     [''text'' \<mapsto> ''alpha\<newline>\<newline>beta\<newline>\<newline>gamma\<newline>\<newline>'']"
  by (simp add: process_file_pdf extract_from_pdf_returns [OF sample_world_fs sample_world_pdf])

subsection \<open>The boundary: extensions and file names\<close>

lemma rfind_from_absent: "c \<notin> set s \<Longrightarrow> rfind_from c s i found = found"
  by (induction s arbitrary: i found) auto

lemma rfind_from_last:
  "c \<notin> set ys \<Longrightarrow> rfind_from c (xs @ c # ys) i found = i + int (length xs)"
  by (induction xs arbitrary: i found) (simp_all add: rfind_from_absent)

lemma rfind_absent: "c \<notin> set s \<Longrightarrow> rfind c s = - 1"
  by (simp add: rfind_def rfind_from_absent)

lemma rfind_last: "c \<notin> set ys \<Longrightarrow> rfind c (xs @ c # ys) = int (length xs)"
  by (simp add: rfind_def rfind_from_last)

lemma rfind_from_lower_bound: "found \<le> i \<Longrightarrow> found \<le> rfind_from c s i found"
proof (induction s arbitrary: i found)
  case Nil
  then show ?case by simp
next
  case (Cons x xs)
  have "(if x = c then i else found) \<le> i + 1"
    using Cons.prems by simp
  from Cons.IH [OF this] Cons.prems show ?case
    by (simp split: if_splits)
qed

lemma rfind_lower_bound: "- 1 \<le> rfind c s"
  by (simp add: rfind_def rfind_from_lower_bound)

lemma splitext_no_dot: "CHR ''.'' \<notin> set name \<Longrightarrow> splitext name = (name, [])"
  using rfind_lower_bound [of "CHR ''/''" name]
  by (simp add: splitext_def rfind_absent Let_def)

lemma splitext_simple:
  assumes "CHR ''/'' \<notin> set stem" and "\<exists>c\<in>set stem. c \<noteq> CHR ''.''"
    and "CHR ''.'' \<notin> set e" and "CHR ''/'' \<notin> set e"
  shows "splitext (stem @ ''.'' @ e) = (stem, ''.'' @ e)"
proof -
  have sep: "rfind CHR ''/'' (stem @ ''.'' @ e) = - 1"
    using assms(1,4) by (simp add: rfind_absent)
  have dot: "rfind CHR ''.'' (stem @ ''.'' @ e) = int (length stem)"
    using rfind_last [OF assms(3), of stem] by simp
  have ex: "list_ex (\<lambda>c. c \<noteq> CHR ''.'') stem"
    using assms(2) by (simp add: list_ex_iff)
  show ?thesis
    unfolding splitext_def sep dot Let_def using ex by simp
qed

lemma ascii_lower_char_idem: "ascii_lower_char (ascii_lower_char c) = ascii_lower_char c"
  by (simp add: ascii_lower_char_def)

lemma ascii_lower_idem: "ascii_lower (ascii_lower s) = ascii_lower s"
  by (simp add: ascii_lower_def ascii_lower_char_idem)

lemma of_char_ascii_lower_char:
  "(of_char (ascii_lower_char c) :: nat) =
     (if 65 \<le> (of_char c :: nat) \<and> (of_char c :: nat) \<le> 90 then of_char c + 32 else of_char c)"
  by (simp add: ascii_lower_char_def)

lemma ascii_lower_char_dot: "(ascii_lower_char c = CHR ''.'') = (c = CHR ''.'')"
proof -
  have "(ascii_lower_char c = CHR ''.'') =
          ((of_char (ascii_lower_char c) :: nat) = of_char CHR ''.'')"
    by (simp only: of_char_eq_iff)
  also have "\<dots> = ((of_char c :: nat) = of_char CHR ''.'')"
    by (simp add: of_char_ascii_lower_char)
  also have "\<dots> = (c = CHR ''.'')"
    by (simp only: of_char_eq_iff)
  finally show ?thesis .
qed

lemma ascii_lower_char_slash: "(ascii_lower_char c = CHR ''/'') = (c = CHR ''/'')"
proof -
  have "(ascii_lower_char c = CHR ''/'') =
          ((of_char (ascii_lower_char c) :: nat) = of_char CHR ''/'')"
    by (simp only: of_char_eq_iff)
  also have "\<dots> = ((of_char c :: nat) = of_char CHR ''/'')"
    by (simp add: of_char_ascii_lower_char)
  also have "\<dots> = (c = CHR ''/'')"
    by (simp only: of_char_eq_iff)
  finally show ?thesis .
qed

lemma ascii_lower_char_dot_sym: "(CHR ''.'' = ascii_lower_char c) = (c = CHR ''.'')"
  using ascii_lower_char_dot [of c] by auto

lemma ascii_lower_char_slash_sym: "(CHR ''/'' = ascii_lower_char c) = (c = CHR ''/'')"
  using ascii_lower_char_slash [of c] by auto

lemma ascii_lower_keeps_dot: "(CHR ''.'' \<in> set (ascii_lower s)) = (CHR ''.'' \<in> set s)"
  by (simp add: ascii_lower_def image_iff ascii_lower_char_dot_sym)

lemma ascii_lower_keeps_slash: "(CHR ''/'' \<in> set (ascii_lower s)) = (CHR ''/'' \<in> set s)"
  by (simp add: ascii_lower_def image_iff ascii_lower_char_slash_sym)

lemma is_ascii_ascii_lower: "is_ascii s \<Longrightarrow> is_ascii (ascii_lower s)"
  by (induction s) (simp_all add: is_ascii_def ascii_lower_def of_char_ascii_lower_char)

lemma is_ascii_dot: "is_ascii (''.'' @ s) = is_ascii s"
  by (simp add: is_ascii_def)

lemma ascii_lower_dot: "ascii_lower (''.'' @ s) = ''.'' @ ascii_lower s"
  by (simp add: ascii_lower_def ascii_lower_char_def)

lemma lower_ascii: "is_ascii s \<Longrightarrow> lower w s = ascii_lower s"
  by (simp add: lower_def)

lemma known_extensions_lower_case:
  assumes "e \<in> {''.pdf'', ''.docx'', ''.doc'', ''.txt'', ''.csv'', ''.xls'', ''.xlsx'', ''.pptx'',
      ''.html'', ''.htm'', ''.jpg'', ''.jpeg'', ''.png'', ''.bmp'', ''.gif'', ''.tiff''}"
  shows "list_all (\<lambda>c. \<not> (65 \<le> (of_char c :: nat) \<and> (of_char c :: nat) \<le> 90)) e"
  using assms by (elim insertE emptyE) simp_all

lemma upper_case_extension_unknown:
  assumes "list_ex (\<lambda>c. 65 \<le> (of_char c :: nat) \<and> (of_char c :: nat) \<le> 90) e"
  shows "process_file w p e = [''text'' \<mapsto> ''Unsupported file format: '' @ e]"
proof -
  have "e \<notin> {''.pdf'', ''.docx'', ''.doc'', ''.txt'', ''.csv'', ''.xls'', ''.xlsx'', ''.pptx'',
      ''.html'', ''.htm'', ''.jpg'', ''.jpeg'', ''.png'', ''.bmp'', ''.gif'', ''.tiff''}"
  proof
    assume "e \<in> {''.pdf'', ''.docx'', ''.doc'', ''.txt'', ''.csv'', ''.xls'', ''.xlsx'', ''.pptx'',
      ''.html'', ''.htm'', ''.jpg'', ''.jpeg'', ''.png'', ''.bmp'', ''.gif'', ''.tiff''}"
    then have "list_all (\<lambda>c. \<not> (65 \<le> (of_char c :: nat) \<and> (of_char c :: nat) \<le> 90)) e"
      by (rule known_extensions_lower_case)
    with assms show False
      by (simp only: list_all_iff list_ex_iff) blast
  qed
  then show ?thesis
    by (simp add: process_file_def process_file_with_def process_file_try_def)
qed

lemma written_world:
  "(w\<lparr>fs := (fs w)(t := Inr [])\<rparr>)\<lparr>fs := (fs (w\<lparr>fs := (fs w)(t := Inr [])\<rparr>))(t := Inr b)\<rparr> =
   w\<lparr>fs := (fs w)(t := Inr b)\<rparr>"
  by simp

lemma extract_text_with_named:
  "fst (extract_text_with cls w (Some \<lparr>filename = Some name, content = b\<rparr>)) =
   Inr (process_file_with (cls (w\<lparr>fs := (fs w)(tmp_name w := Inr b)\<rparr>)) (tmp_name w)
          (lower w (snd (splitext name))))"
  by (simp add: extract_text_with_def Let_def)

lemma extract_text_named:
  "fst (extract_text w (Some \<lparr>filename = Some name, content = b\<rparr>)) =
   Inr (process_file (w\<lparr>fs := (fs w)(tmp_name w := Inr b)\<rparr>) (tmp_name w)
          (lower w (snd (splitext name))))"
  by (simp add: extract_text_def extract_text_with_named process_file_def)

lemma process_file_try_returns:
  "\<exists>t. process_file_try (DocumentExtractor w) p e = Inr t"
  by (simp add: process_file_try_def DocumentExtractor_def)

subsection \<open>The decoder\<close>

lemma utf8_step_valid_length: "utf8_step c cs = Valid k \<Longrightarrow> k \<le> length cs"
  by (auto simp: utf8_step_def Let_def split: if_splits list.splits)

lemma utf8_step_valid_prefix:
  "utf8_step c cs = Valid k \<Longrightarrow> utf8_step c (take k cs @ rest) = Valid k"
  by (auto simp: utf8_step_def Let_def split: if_splits list.splits)

lemma utf8_step_marker: "utf8_step CHR 0xEF (CHR 0xBF # CHR 0xBD # rest) = Valid 2"
  by (simp add: utf8_step_def is_continuation_def)

lemma utf8_decode_strict_marker:
  "utf8_decode_strict (replacement_marker @ s) =
     (case utf8_decode_strict s of Inl e \<Rightarrow> Inl e | Inr t \<Rightarrow> Inr (replacement_marker @ t))"
  by (simp add: replacement_marker_def utf8_step_marker numeral_2_eq_2 split: sum.split)

lemma utf8_decode_replace_well_formed:
  "utf8_decode_strict (utf8_decode_replace b) = Inr (utf8_decode_replace b)"
proof (induction b rule: utf8_decode_replace.induct)
  case 1
  then show ?case by simp
next
  case (2 c cs)
  show ?case
  proof (cases "utf8_step c cs")
    case (Valid k)
    have len: "k \<le> length cs"
      by (rule utf8_step_valid_length [OF Valid])
    have step: "utf8_step c (take k cs @ utf8_decode_replace (drop k cs)) = Valid k"
      by (rule utf8_step_valid_prefix [OF Valid])
    from "2.IH"(1) [OF Valid] len step Valid show ?thesis
      by simp
  next
    case (Invalid k)
    from "2.IH"(2) [OF Invalid] Invalid show ?thesis
      by (simp add: utf8_decode_strict_marker)
  qed
qed

lemma utf8_decode_replace_agrees:
  "utf8_decode_strict b = Inr t \<Longrightarrow> utf8_decode_replace b = t"
proof (induction b arbitrary: t rule: utf8_decode_strict.induct)
  case 1
  then show ?case by simp
next
  case (2 c cs)
  then show ?case
    by (auto split: utf8_result.splits sum.splits)
qed

lemma utf8_decode_strict_identity:
  "utf8_decode_strict b = Inr t \<Longrightarrow> t = b"
proof (induction b arbitrary: t rule: utf8_decode_strict.induct)
  case 1
  then show ?case by simp
next
  case (2 c cs)
  from "2.prems" obtain k s where step: "utf8_step c cs = Valid k"
    and rest: "utf8_decode_strict (drop k cs) = Inr s"
    and t: "t = c # take k cs @ s"
    by (auto split: utf8_result.splits sum.splits)
  from "2.IH" [OF step rest] have "s = drop k cs" .
  with t show ?case by simp
qed

lemma process_file_txt_stored:
  "fs w p = Inr b \<Longrightarrow>
   process_file w p ''.txt'' = [''text'' \<mapsto> universal_newlines (utf8_decode_replace b)]"
  by (simp add: process_file_txt extract_from_txt_def extract_from_txt_try_def read_text_def
      handler_returned)

lemma process_file_txt_text: "\<exists>t. process_file w p ''.txt'' = [''text'' \<mapsto> t]"
  using process_file_txt [of w p] by blast

lemma utf8_step_valid_append:
  assumes "utf8_step c cs = Valid k"
  shows "utf8_step c (cs @ rest) = Valid k"
proof -
  have "utf8_step c (take k cs @ (drop k cs @ rest)) = Valid k"
    by (rule utf8_step_valid_prefix [OF assms])
  moreover have "take k cs @ (drop k cs @ rest) = cs @ rest"
    by (simp only: append_assoc [symmetric] append_take_drop_id)
  ultimately show ?thesis by simp
qed

lemma utf8_decode_replace_append:
  "utf8_decode_strict pre = Inr pre \<Longrightarrow>
   utf8_decode_replace (pre @ rest) = pre @ utf8_decode_replace rest"
proof (induction pre rule: utf8_decode_strict.induct)
  case 1
  then show ?case by simp
next
  case (2 c cs)
  from "2.prems" obtain k s where step: "utf8_step c cs = Valid k"
    and tl: "utf8_decode_strict (drop k cs) = Inr s"
    by (auto split: utf8_result.splits sum.splits)
  have s: "s = drop k cs"
    by (rule utf8_decode_strict_identity [OF tl])
  have len: "k \<le> length cs"
    by (rule utf8_step_valid_length [OF step])
  have ih: "utf8_decode_replace (drop k cs @ rest) = drop k cs @ utf8_decode_replace rest"
    using "2.IH" [OF step] tl s by simp
  have "utf8_decode_replace ((c # cs) @ rest) =
          c # take k cs @ utf8_decode_replace (drop k cs @ rest)"
    using utf8_step_valid_append [OF step, of rest] len by simp
  also have "\<dots> = (c # cs) @ utf8_decode_replace rest"
    by (simp add: ih)
  finally show ?case .
qed

lemma latin1_decoded:
  "universal_newlines (utf8_decode_replace [CHR ''c'', CHR ''a'', CHR ''f'', CHR 0xE9, CHR 0x0D, CHR 0x0A]) =
     [CHR ''c'', CHR ''a'', CHR ''f'', CHR 0xEF, CHR 0xBF, CHR 0xBD, CHR 0x0A]"
  by code_simp

lemma latin1_not_utf8:
  "utf8_decode_strict [CHR ''c'', CHR ''a'', CHR ''f'', CHR 0xE9, CHR 0x0D, CHR 0x0A] =
     Inl ''UnicodeDecodeError''"
  by code_simp

subsection \<open>Failure policy of the handlers\<close>

text \<open>
  C1.  For every file and every supported extension: when the parsing in the body of
  the format's handler raises an exception with message \<open>m\<close>, the exception is caught
  inside the handler and \<^verbatim>\<open>process_file\<close> returns the text result whose content is
  \<^verbatim>\<open>Error extracting text from <FORMAT>: m\<close>, neither an error result nor a raised
  exception.  The table gives, for each extension, the label and the body of the
  \<^verbatim>\<open>try\<close> block.  For a corrupted PDF the body raises as soon as the reader or a
  page raises (\<open>extract_from_pdf_try_reader_raises\<close>,
  \<open>extract_from_pdf_try_page_raises\<close>), so the content starts with
  \<^verbatim>\<open>Error extracting text from PDF:\<close>.
\<close>

theorem parse_failure_becomes_text:
  assumes "(file_ext, label, body) \<in>
       {(''.pdf'', ''PDF'', extract_from_pdf_try w p),
        (''.docx'', ''DOCX'', extract_from_docx_try w p),
        (''.doc'', ''DOC'', extract_from_doc_try w p),
        (''.txt'', ''TXT'', extract_from_txt_try w p),
        (''.csv'', ''CSV'', extract_from_csv_try w p),
        (''.xls'', ''Excel'', extract_from_excel_try w p),
        (''.xlsx'', ''Excel'', extract_from_excel_try w p),
        (''.pptx'', ''PowerPoint'', extract_from_pptx_try w p),
        (''.html'', ''HTML'', extract_from_html_try w p),
        (''.htm'', ''HTML'', extract_from_html_try w p)}"
    and "body = Inl m"
  shows "process_file w p file_ext =
         [''text'' \<mapsto> ''Error extracting text from '' @ label @ '': '' @ m]"
proof -
  from assms(1) have "process_file w p file_ext = [''text'' \<mapsto> handler label body]"
    by (elim insertE emptyE) (simp_all add: process_file_routes handler_defs)
  then show ?thesis
    by (simp add: assms(2) handler_raised)
qed

theorem parse_failure_becomes_text_witness:
  "extract_from_pdf_try corrupt_world ''/tmp/doc'' = Inl ''EOF marker not found''
   \<and> process_file corrupt_world ''/tmp/doc'' ''.pdf'' =
       [''text'' \<mapsto> ''Error extracting text from PDF: EOF marker not found'']"
proof -
  have body: "extract_from_pdf_try corrupt_world ''/tmp/doc'' = Inl ''EOF marker not found''"
    by (simp add: extract_from_pdf_try_def corrupt_world_def)
  have "process_file corrupt_world ''/tmp/doc'' ''.pdf'' =
       [''text'' \<mapsto> ''Error extracting text from '' @ ''PDF'' @ '': '' @ ''EOF marker not found'']"
    by (rule parse_failure_becomes_text [OF insertI1 body])
  with body show ?thesis by simp
qed

subsection \<open>PDF pages\<close>

text \<open>
  C4, as stated, fails.  The claim reads: for a well-formed PDF the text is the page
  texts joined by blank lines, the separator standing between the pages.  The loop of
  \<^verbatim>\<open>extract_from_pdf\<close> appends the separator after every page, the last one
  included: for the three pages \<^verbatim>\<open>alpha\<close>, \<^verbatim>\<open>beta\<close>, \<^verbatim>\<open>gamma\<close> the text ends
  with a separator that the join does not have.
\<close>

theorem pdf_pages_joined_counterexample:
  "process_file sample_world ''/tmp/doc'' ''.pdf'' =
     [''text'' \<mapsto> ''alpha\<newline>\<newline>beta\<newline>\<newline>gamma\<newline>\<newline>'']
   \<and> process_file sample_world ''/tmp/doc'' ''.pdf'' \<noteq>
     [''text'' \<mapsto> join ''\<newline>\<newline>'' [''alpha'', ''beta'', ''gamma'']]"
  by (simp add: sample_world_pdf_text text_result_eq)

text \<open>
  C4, amended.  For a well-formed PDF (the reader returns and every page's extraction
  returns) the text is the page texts in page order, each page followed by the
  separator \<^verbatim>\<open>\n\n\<close>: the join of the page texts with one more separator at the end
  when there is a page, and the empty string when there is none.
\<close>

theorem pdf_pages_each_followed_by_separator:
  assumes "fs w p = Inr b" and "pdf_reader w b = Inr (map Inr ts)"
  shows "process_file w p ''.pdf'' =
     [''text'' \<mapsto> (if ts = [] then [] else join ''\<newline>\<newline>'' ts @ ''\<newline>\<newline>'')]"
  by (simp add: process_file_pdf extract_from_pdf_returns [OF assms] concat_join)

theorem pdf_pages_each_followed_by_separator_witness:
  "fs sample_world ''/tmp/doc'' = Inr ''caf''
   \<and> pdf_reader sample_world ''caf'' = Inr (map Inr [''alpha'', ''beta'', ''gamma''])
   \<and> process_file sample_world ''/tmp/doc'' ''.pdf'' =
       [''text'' \<mapsto> ''alpha\<newline>\<newline>beta\<newline>\<newline>gamma'' @ ''\<newline>\<newline>'']"
  using pdf_pages_each_followed_by_separator [OF sample_world_fs sample_world_pdf]
    sample_world_fs sample_world_pdf [of "''caf''"]
  by simp

subsection \<open>Images and unknown extensions\<close>

text \<open>
  C5.  For each of the six image extensions, \<^verbatim>\<open>process_file\<close> returns the text
  result with the fixed message, for every world and path: the result depends neither
  on the bytes of the file nor on any library.
\<close>

theorem image_extensions_fixed_message:
  assumes "file_ext \<in> {''.jpg'', ''.jpeg'', ''.png'', ''.bmp'', ''.gif'', ''.tiff''}"
  shows "process_file w file_path file_ext =
     [''text'' \<mapsto> ''Image processing is not supported in this version.'']"
  using assms
  unfolding process_file_def process_file_with_def process_file_try_def
  by (elim insertE emptyE) simp_all

theorem image_extensions_fixed_message_witness:
  "''.png'' \<in> {''.jpg'', ''.jpeg'', ''.png'', ''.bmp'', ''.gif'', ''.tiff''}
   \<and> process_file sample_world [] ''.png'' =
       [''text'' \<mapsto> ''Image processing is not supported in this version.'']
   \<and> process_file corrupt_world ''/tmp/doc'' ''.png'' =
       [''text'' \<mapsto> ''Image processing is not supported in this version.'']"
proof -
  have m: "''.png'' \<in> {''.jpg'', ''.jpeg'', ''.png'', ''.bmp'', ''.gif'', ''.tiff''}"
    by simp
  from image_extensions_fixed_message [OF m, of sample_world "[]"]
       image_extensions_fixed_message [OF m, of corrupt_world "''/tmp/doc''"] m
  show ?thesis by blast
qed

text \<open>
  C6.  For every extension outside the sixteen known ones, \<^verbatim>\<open>process_file\<close> returns
  the text result \<^verbatim>\<open>Unsupported file format: <ext>\<close>, with the extension as given.
\<close>

theorem unknown_extension_unsupported:
  assumes "file_ext \<notin>
     {''.pdf'', ''.docx'', ''.doc'', ''.txt'', ''.csv'', ''.xls'', ''.xlsx'', ''.pptx'',
      ''.html'', ''.htm'', ''.jpg'', ''.jpeg'', ''.png'', ''.bmp'', ''.gif'', ''.tiff''}"
  shows "process_file w file_path file_ext =
     [''text'' \<mapsto> ''Unsupported file format: '' @ file_ext]"
  using assms
  by (simp add: process_file_def process_file_with_def process_file_try_def)

theorem unknown_extension_unsupported_witness:
  "''.zip'' \<notin>
     {''.pdf'', ''.docx'', ''.doc'', ''.txt'', ''.csv'', ''.xls'', ''.xlsx'', ''.pptx'',
      ''.html'', ''.htm'', ''.jpg'', ''.jpeg'', ''.png'', ''.bmp'', ''.gif'', ''.tiff''}
   \<and> process_file sample_world ''/tmp/doc'' ''.zip'' =
       [''text'' \<mapsto> ''Unsupported file format: .zip'']"
proof -
  have m: "''.zip'' \<notin>
     {''.pdf'', ''.docx'', ''.doc'', ''.txt'', ''.csv'', ''.xls'', ''.xlsx'', ''.pptx'',
      ''.html'', ''.htm'', ''.jpg'', ''.jpeg'', ''.png'', ''.bmp'', ''.gif'', ''.tiff''}"
    by simp
  from unknown_extension_unsupported [OF m, of sample_world "''/tmp/doc''"] m
  show ?thesis by simp
qed

subsection \<open>Workbooks\<close>

text \<open>
  C7.  For \<^verbatim>\<open>.xls\<close> and \<^verbatim>\<open>.xlsx\<close> and a well-formed workbook (the reader returns
  and every sheet renders), the text is built sheet by sheet in the workbook's order:
  the label \<^verbatim>\<open>Sheet: <name>\<close> and a line break, the rendered table, and a blank
  line.  The witness is the workbook with the sheets \<^verbatim>\<open>Sheet1\<close> and \<^verbatim>\<open>Data\<close>.
\<close>

theorem excel_sheets_in_workbook_order:
  assumes "file_ext \<in> {''.xls'', ''.xlsx''}"
    and "fs w p = Inr b"
    and "read_excel w b = Inr (map (\<lambda>(name, table). (name, Inr table)) sheets)"
  shows "process_file w p file_ext =
     [''text'' \<mapsto>
        concat (map (\<lambda>(name, table).
          ''Sheet: '' @ name @ ''\<newline>'' @ table @ ''\<newline>\<newline>'') sheets)]"
  using assms(1) extract_from_excel_returns [OF assms(2,3)]
  by (elim insertE emptyE) (simp_all add: process_file_xls process_file_xlsx)

theorem excel_sheets_in_workbook_order_witness:
  "''.xlsx'' \<in> {''.xls'', ''.xlsx''}
   \<and> fs sample_world ''/tmp/doc'' = Inr ''caf''
   \<and> read_excel sample_world ''caf'' = Inr [(''Sheet1'', Inr ''T1''), (''Data'', Inr ''T2'')]
   \<and> process_file sample_world ''/tmp/doc'' ''.xlsx'' =
       [''text'' \<mapsto> ''Sheet: Sheet1\<newline>T1\<newline>\<newline>Sheet: Data\<newline>T2\<newline>\<newline>'']"
proof -
  have m: "''.xlsx'' \<in> {''.xls'', ''.xlsx''}" by simp
  from excel_sheets_in_workbook_order [OF m sample_world_fs sample_world_excel]
       m sample_world_fs sample_world_excel [of "''caf''"]
  show ?thesis by simp
qed

subsection \<open>Shape of the result\<close>

text \<open>
  C9.  Every value that \<^verbatim>\<open>process_file\<close> returns has exactly one of the keys
  \<^verbatim>\<open>text\<close> and \<^verbatim>\<open>error\<close>, and no other key: never both, never neither.  This
  holds whatever the callees do; with the handlers of the repository the key is
  \<^verbatim>\<open>text\<close>.
\<close>

theorem process_file_exactly_one_variant:
  "((''text'' \<in> dom (process_file_with cs p e)) \<noteq> (''error'' \<in> dom (process_file_with cs p e)))
   \<and> dom (process_file_with cs p e) \<subseteq> {''text'', ''error''}
   \<and> ((''text'' \<in> dom (process_file w p e)) \<noteq> (''error'' \<in> dom (process_file w p e)))
   \<and> dom (process_file w p e) \<subseteq> {''text'', ''error''}"
  by (simp add: process_file_def process_file_with_def split: sum.split)

subsection \<open>Letter case of the extension\<close>

text \<open>
  C3, as stated, fails.  The claim reads: \<^verbatim>\<open>process_file\<close> compares the extension
  without regard to letter case, so that \<^verbatim>\<open>process_file(b, e)\<close> and
  \<^verbatim>\<open>process_file(b, lowercase(e))\<close> select the same handler.  The ladder of
  \<^verbatim>\<open>process_file\<close> compares with \<^verbatim>\<open>==\<close> against lower-case literals: given
  \<^verbatim>\<open>.PDF\<close> it takes the fallback, given \<^verbatim>\<open>.pdf\<close> the PDF handler.
\<close>

theorem dispatcher_case_sensitive_counterexample:
  "lower sample_world ''.PDF'' = ''.pdf''
   \<and> process_file sample_world ''/tmp/doc'' ''.PDF'' =
       [''text'' \<mapsto> ''Unsupported file format: .PDF'']
   \<and> process_file sample_world ''/tmp/doc'' (lower sample_world ''.PDF'') =
       [''text'' \<mapsto> ''alpha\<newline>\<newline>beta\<newline>\<newline>gamma\<newline>\<newline>'']
   \<and> process_file sample_world ''/tmp/doc'' ''.PDF'' \<noteq>
       process_file sample_world ''/tmp/doc'' (lower sample_world ''.PDF'')"
proof -
  have l: "lower sample_world ''.PDF'' = ''.pdf''" by code_simp
  have u: "process_file sample_world ''/tmp/doc'' ''.PDF'' =
       [''text'' \<mapsto> ''Unsupported file format: .PDF'']"
    by (simp add: process_file_def process_file_with_def process_file_try_def)
  show ?thesis
    unfolding l u sample_world_pdf_text by (simp add: text_result_eq)
qed

text \<open>
  C3, amended.  \<^verbatim>\<open>process_file\<close> compares the extension it is given as it is:
  every extension with an ASCII upper-case letter takes the fallback.  The letter
  case is removed at the boundary: \<^verbatim>\<open>extract_text\<close> applies \<^verbatim>\<open>str.lower()\<close> to
  the suffix of the file name before it calls \<^verbatim>\<open>process_file\<close>.  For an upload
  named \<open>stem.e\<close>, where the stem has no \<^verbatim>\<open>/\<close> and has a character other than a
  dot, and \<open>e\<close> has neither a dot nor a \<^verbatim>\<open>/\<close>, the response is that of
  \<^verbatim>\<open>process_file\<close> on the written temporary file with the extension
  \<^verbatim>\<open>str.lower\<close> of \<open>.e\<close>.  When \<open>e\<close> is ASCII, that extension is the dot followed
  by \<open>e\<close> with \<^verbatim>\<open>A\<close> to \<^verbatim>\<open>Z\<close> mapped to \<^verbatim>\<open>a\<close> to \<^verbatim>\<open>z\<close>, and the response is the
  one of the upload named with the lower-cased \<open>e\<close>.
\<close>

theorem boundary_lowers_extension:
  assumes "CHR ''/'' \<notin> set stem" and "\<exists>c\<in>set stem. c \<noteq> CHR ''.''"
    and "CHR ''.'' \<notin> set e" and "CHR ''/'' \<notin> set e"
  shows "fst (extract_text w (Some \<lparr>filename = Some (stem @ ''.'' @ e), content = b\<rparr>)) =
           Inr (process_file (w\<lparr>fs := (fs w)(tmp_name w := Inr b)\<rparr>) (tmp_name w)
                  (lower w (''.'' @ e)))
       \<and> (is_ascii e \<longrightarrow>
            lower w (''.'' @ e) = ''.'' @ ascii_lower e
          \<and> fst (extract_text w (Some \<lparr>filename = Some (stem @ ''.'' @ e), content = b\<rparr>)) =
              fst (extract_text w
                (Some \<lparr>filename = Some (stem @ ''.'' @ ascii_lower e), content = b\<rparr>)))
       \<and> (\<forall>p x. list_ex (\<lambda>c. 65 \<le> (of_char c :: nat) \<and> (of_char c :: nat) \<le> 90) x \<longrightarrow>
            process_file w p x = [''text'' \<mapsto> ''Unsupported file format: '' @ x])"
proof (intro conjI impI allI)
  have 1: "splitext (stem @ ''.'' @ e) = (stem, ''.'' @ e)"
    by (rule splitext_simple [OF assms])
  show r: "fst (extract_text w (Some \<lparr>filename = Some (stem @ ''.'' @ e), content = b\<rparr>)) =
           Inr (process_file (w\<lparr>fs := (fs w)(tmp_name w := Inr b)\<rparr>) (tmp_name w)
                  (lower w (''.'' @ e)))"
    unfolding extract_text_named 1 snd_conv ..
  show l: "lower w (''.'' @ e) = ''.'' @ ascii_lower e" if "is_ascii e"
    using that by (simp only: lower_ascii is_ascii_dot ascii_lower_dot)
  show "fst (extract_text w (Some \<lparr>filename = Some (stem @ ''.'' @ e), content = b\<rparr>)) =
        fst (extract_text w
          (Some \<lparr>filename = Some (stem @ ''.'' @ ascii_lower e), content = b\<rparr>))"
    if a: "is_ascii e"
  proof -
    have 2: "splitext (stem @ ''.'' @ ascii_lower e) = (stem, ''.'' @ ascii_lower e)"
      using assms
      by (intro splitext_simple) (simp_all add: ascii_lower_keeps_dot ascii_lower_keeps_slash)
    have 3: "lower w (''.'' @ ascii_lower e) = ''.'' @ ascii_lower e"
      using is_ascii_ascii_lower [OF a]
      by (simp only: lower_ascii is_ascii_dot ascii_lower_dot ascii_lower_idem)
    show ?thesis
      unfolding extract_text_named 1 2 snd_conv 3 l [OF a] ..
  qed
  show "process_file w p x = [''text'' \<mapsto> ''Unsupported file format: '' @ x]"
    if "list_ex (\<lambda>c. 65 \<le> (of_char c :: nat) \<and> (of_char c :: nat) \<le> 90) x" for p x
    by (rule upper_case_extension_unknown [OF that])
qed

theorem boundary_lowers_extension_witness:
  "CHR ''/'' \<notin> set ''Report'' \<and> (\<exists>c\<in>set ''Report''. c \<noteq> CHR ''.'')
   \<and> CHR ''.'' \<notin> set ''PDF'' \<and> CHR ''/'' \<notin> set ''PDF''
   \<and> is_ascii ''PDF''
   \<and> lower sample_world ''.PDF'' = ''.pdf''
   \<and> fst (extract_text sample_world (Some \<lparr>filename = Some ''Report.PDF'', content = ''x''\<rparr>)) =
       Inr [''text'' \<mapsto> ''alpha\<newline>\<newline>beta\<newline>\<newline>gamma\<newline>\<newline>'']
   \<and> fst (extract_text sample_world (Some \<lparr>filename = Some ''Report.PDF'', content = ''x''\<rparr>)) =
       fst (extract_text sample_world (Some \<lparr>filename = Some ''Report.pdf'', content = ''x''\<rparr>))
   \<and> list_ex (\<lambda>c. 65 \<le> (of_char c :: nat) \<and> (of_char c :: nat) \<le> 90) ''.Pdf''
   \<and> process_file sample_world ''/tmp/doc'' ''.Pdf'' =
       [''text'' \<mapsto> ''Unsupported file format: .Pdf'']
   \<and> \<not> is_ascii [CHR 0xC3, CHR 0x89]
   \<and> fst (extract_text sample_world
        (Some \<lparr>filename = Some (''a.'' @ [CHR 0xC3, CHR 0x89]), content = ''x''\<rparr>)) =
       Inr [''text'' \<mapsto> ''Unsupported file format: .'' @ [CHR 0xC3, CHR 0xA9]]"
proof -
  have a: "CHR ''/'' \<notin> set ''Report''" by simp
  have b: "\<exists>c\<in>set ''Report''. c \<noteq> CHR ''.''" by simp
  have c: "CHR ''.'' \<notin> set ''PDF''" by simp
  have d: "CHR ''/'' \<notin> set ''PDF''" by simp
  have i: "is_ascii ''PDF''" by (simp add: is_ascii_def)
  have l: "lower sample_world ''.PDF'' = ''.pdf''" by code_simp
  have al: "ascii_lower ''PDF'' = ''pdf''" by code_simp
  have u: "list_ex (\<lambda>c. 65 \<le> (of_char c :: nat) \<and> (of_char c :: nat) \<le> 90) ''.Pdf''"
    by simp
  have f: "fs (sample_world\<lparr>fs := (fs sample_world)(tmp_name sample_world := Inr ''x'')\<rparr>)
             (tmp_name sample_world) = Inr ''x''"
    by simp
  have r: "pdf_reader (sample_world\<lparr>fs := (fs sample_world)(tmp_name sample_world := Inr ''x'')\<rparr>) ''x''
            = Inr (map Inr [''alpha'', ''beta'', ''gamma''])"
    by (simp add: sample_world_def)
  have p: "process_file (sample_world\<lparr>fs := (fs sample_world)(tmp_name sample_world := Inr ''x'')\<rparr>)
             (tmp_name sample_world) ''.pdf'' =
           [''text'' \<mapsto> ''alpha\<newline>\<newline>beta\<newline>\<newline>gamma\<newline>\<newline>'']"
    by (simp add: process_file_pdf extract_from_pdf_returns [OF f r])
  note t = boundary_lowers_extension [OF a b c d, of sample_world "''x''"]
  have 1: "fst (extract_text sample_world (Some \<lparr>filename = Some ''Report.PDF'', content = ''x''\<rparr>)) =
       Inr [''text'' \<mapsto> ''alpha\<newline>\<newline>beta\<newline>\<newline>gamma\<newline>\<newline>'']"
    using t [THEN conjunct1] l p by simp
  have 2: "fst (extract_text sample_world (Some \<lparr>filename = Some ''Report.PDF'', content = ''x''\<rparr>)) =
       fst (extract_text sample_world (Some \<lparr>filename = Some ''Report.pdf'', content = ''x''\<rparr>))"
    using t [THEN conjunct2, THEN conjunct1, rule_format, OF i, THEN conjunct2] al by simp
  have 3: "process_file sample_world ''/tmp/doc'' ''.Pdf'' =
       [''text'' \<mapsto> ''Unsupported file format: '' @ ''.Pdf'']"
    by (rule t [THEN conjunct2, THEN conjunct2, rule_format, OF u])
  have n: "\<not> is_ascii [CHR 0xC3, CHR 0x89]" by (simp add: is_ascii_def)
  have a': "CHR ''/'' \<notin> set ''a''" by simp
  have b': "\<exists>c\<in>set ''a''. c \<noteq> CHR ''.''" by simp
  have c': "CHR ''.'' \<notin> set [CHR 0xC3, CHR 0x89]" by simp
  have d': "CHR ''/'' \<notin> set [CHR 0xC3, CHR 0x89]" by simp
  have l': "lower sample_world (''.'' @ [CHR 0xC3, CHR 0x89]) = ''.'' @ [CHR 0xC3, CHR 0xA9]"
    by code_simp
  have 4: "fst (extract_text sample_world
        (Some \<lparr>filename = Some (''a.'' @ [CHR 0xC3, CHR 0x89]), content = ''x''\<rparr>)) =
       Inr [''text'' \<mapsto> ''Unsupported file format: .'' @ [CHR 0xC3, CHR 0xA9]]"
    using boundary_lowers_extension [OF a' b' c' d', of sample_world "''x''", THEN conjunct1]
    unfolding l'
    by (simp add: process_file_def process_file_with_def process_file_try_def)
  from a b c d i l 1 2 u 3 n 4 show ?thesis by simp
qed

subsection \<open>No extension\<close>

text \<open>
  C10.  With the empty extension \<^verbatim>\<open>process_file\<close> takes the fallback and returns
  the text result \<^verbatim>\<open>Unsupported file format: \<close> with nothing after the colon and
  the space; a file name without a dot has the empty extension, and the boundary
  returns that result for it, with no error.
\<close>

theorem empty_extension_unsupported:
  assumes "CHR ''.'' \<notin> set name"
  shows "process_file w p [] = [''text'' \<mapsto> ''Unsupported file format: '']
       \<and> snd (splitext name) = []
       \<and> fst (extract_text w (Some \<lparr>filename = Some name, content = b\<rparr>)) =
           Inr [''text'' \<mapsto> ''Unsupported file format: '']"
proof -
  have e: "process_file w' p' [] = [''text'' \<mapsto> ''Unsupported file format: '']" for w' p'
    by (simp add: process_file_def process_file_with_def process_file_try_def)
  have l: "lower w [] = []" by (simp add: lower_def is_ascii_def ascii_lower_def)
  show ?thesis
    unfolding extract_text_named splitext_no_dot [OF assms] snd_conv l e by simp
qed

theorem empty_extension_unsupported_witness:
  "CHR ''.'' \<notin> set ''README''
   \<and> process_file sample_world ''/tmp/doc'' [] = [''text'' \<mapsto> ''Unsupported file format: '']
   \<and> fst (extract_text sample_world (Some \<lparr>filename = Some ''README'', content = ''x''\<rparr>)) =
       Inr [''text'' \<mapsto> ''Unsupported file format: '']"
proof -
  have a: "CHR ''.'' \<notin> set ''README''" by simp
  from empty_extension_unsupported [OF a, of sample_world "''/tmp/doc''" "''x''"] a
  show ?thesis by simp
qed

subsection \<open>Failure outside the handlers\<close>

text \<open>
  C2, as stated, fails.  The claim reads: an exception inside \<^verbatim>\<open>process_file\<close> but
  outside the handlers' own scopes makes \<^verbatim>\<open>process_file\<close> raise, and the boundary
  reports a server error.  The body of \<^verbatim>\<open>process_file\<close> is itself inside
  \<^verbatim>\<open>try ... except Exception\<close>, which returns the error result.  With a callee
  that raises \<^verbatim>\<open>boom\<close>, \<^verbatim>\<open>process_file\<close> returns
  \<^verbatim>\<open>{"error": "Error processing file: boom"}\<close> and the boundary passes it on as
  its response, not as an \<^verbatim>\<open>HTTPException\<close>.
\<close>

theorem dispatcher_failure_counterexample:
  "process_file_try (faulty_extractor sample_world) ''/tmp/doc'' ''.pdf'' = Inl ''boom''
   \<and> process_file_with (faulty_extractor sample_world) ''/tmp/doc'' ''.pdf'' =
       [''error'' \<mapsto> ''Error processing file: boom'']
   \<and> fst (extract_text_with faulty_extractor sample_world
            (Some \<lparr>filename = Some ''report.pdf'', content = ''x''\<rparr>)) =
       Inr [''error'' \<mapsto> ''Error processing file: boom'']"
proof -
  have s: "lower sample_world (snd (splitext ''report.pdf'')) = ''.pdf''"
    by code_simp
  have t: "process_file_try (faulty_extractor w) p ''.pdf'' = Inl ''boom''" for w p
    by (simp add: process_file_try_def faulty_extractor_def)
  show ?thesis
    unfolding extract_text_with_named s by (simp add: process_file_with_def t)
qed

text \<open>
  C2, amended.  When an exception with message \<open>m\<close> is raised in the body of
  \<^verbatim>\<open>process_file\<close> outside the handlers' own scopes, \<^verbatim>\<open>process_file\<close> does not
  raise: it returns the error result \<^verbatim>\<open>{"error": "Error processing file: m"}\<close>,
  and \<^verbatim>\<open>extract_text\<close> returns that value as its response.  (With the handlers
  of the repository the body never raises: \<open>process_file_try_returns\<close>.)
\<close>

theorem dispatcher_failure_is_error_result:
  assumes "process_file_try (cls (w\<lparr>fs := (fs w)(tmp_name w := Inr b)\<rparr>)) (tmp_name w)
             (lower w (snd (splitext name))) = Inl m"
  shows "process_file_with (cls (w\<lparr>fs := (fs w)(tmp_name w := Inr b)\<rparr>)) (tmp_name w)
             (lower w (snd (splitext name))) = [''error'' \<mapsto> ''Error processing file: '' @ m]
       \<and> fst (extract_text_with cls w (Some \<lparr>filename = Some name, content = b\<rparr>)) =
           Inr [''error'' \<mapsto> ''Error processing file: '' @ m]"
  unfolding extract_text_with_named by (simp add: process_file_with_def assms)

theorem dispatcher_failure_is_error_result_witness:
  "process_file_try
     (faulty_extractor (sample_world\<lparr>fs := (fs sample_world)(tmp_name sample_world := Inr ''x'')\<rparr>))
     (tmp_name sample_world) (lower sample_world (snd (splitext ''report.pdf''))) = Inl ''boom''
   \<and> fst (extract_text_with faulty_extractor sample_world
            (Some \<lparr>filename = Some ''report.pdf'', content = ''x''\<rparr>)) =
       Inr [''error'' \<mapsto> ''Error processing file: '' @ ''boom'']"
proof -
  have s: "lower sample_world (snd (splitext ''report.pdf'')) = ''.pdf''"
    by code_simp
  have t: "process_file_try
     (faulty_extractor (sample_world\<lparr>fs := (fs sample_world)(tmp_name sample_world := Inr ''x'')\<rparr>))
     (tmp_name sample_world) (lower sample_world (snd (splitext ''report.pdf''))) = Inl ''boom''"
    unfolding s by (simp add: process_file_try_def faulty_extractor_def)
  from dispatcher_failure_is_error_result
         [where cls = faulty_extractor and w = sample_world and b = "''x''"
            and name = "''report.pdf''" and m = "''boom''", OF t] t
  show ?thesis by blast
qed

subsection \<open>Plain text\<close>

text \<open>
  C8.  For every byte sequence \<open>b\<close> stored under the path, valid UTF-8 or not, the
  \<^verbatim>\<open>.txt\<close> route returns a text result, never an error: its content is \<open>b\<close>
  decoded with the handler \<^verbatim>\<open>replace\<close> (a total function) and with line endings
  translated.  The decoded text is well-formed UTF-8; it is \<open>b\<close> itself when \<open>b\<close> is
  valid; and where \<open>b\<close> is valid up to a position at which the decoder finds an
  error, the replacement marker stands for the extent of that error and decoding
  goes on behind it, so that every invalid position gets its marker.  The witness is
  the Latin-1 file \<^verbatim>\<open>caf\xe9\r\n\<close>, which strict decoding rejects.
\<close>

theorem txt_decoded_leniently:
  assumes "fs w p = Inr b"
  shows "process_file w p ''.txt'' = [''text'' \<mapsto> universal_newlines (utf8_decode_replace b)]
       \<and> utf8_decode_strict (utf8_decode_replace b) = Inr (utf8_decode_replace b)
       \<and> (utf8_decode_strict b = Inr b \<longrightarrow> utf8_decode_replace b = b)
       \<and> (\<forall>pre c cs k. b = pre @ c # cs \<and> utf8_decode_strict pre = Inr pre
             \<and> utf8_step c cs = Invalid k \<longrightarrow>
           utf8_decode_replace b =
             pre @ replacement_marker @ utf8_decode_replace (drop k cs))"
proof (intro conjI allI impI)
  show "process_file w p ''.txt'' = [''text'' \<mapsto> universal_newlines (utf8_decode_replace b)]"
    by (rule process_file_txt_stored [OF assms])
  show "utf8_decode_strict (utf8_decode_replace b) = Inr (utf8_decode_replace b)"
    by (rule utf8_decode_replace_well_formed)
  show "utf8_decode_replace b = b" if "utf8_decode_strict b = Inr b"
    by (rule utf8_decode_replace_agrees [OF that])
  show "utf8_decode_replace b = pre @ replacement_marker @ utf8_decode_replace (drop k cs)"
    if "b = pre @ c # cs \<and> utf8_decode_strict pre = Inr pre \<and> utf8_step c cs = Invalid k"
    for pre c cs k
    using that utf8_decode_replace_append [of pre "c # cs"] by simp
qed

theorem txt_decoded_leniently_witness:
  "fs (sample_world\<lparr>fs := (fs sample_world)
         (''/tmp/note'' := Inr [CHR ''c'', CHR ''a'', CHR ''f'', CHR 0xE9, CHR 0x0D, CHR 0x0A])\<rparr>)
      ''/tmp/note'' = Inr [CHR ''c'', CHR ''a'', CHR ''f'', CHR 0xE9, CHR 0x0D, CHR 0x0A]
   \<and> utf8_decode_strict [CHR ''c'', CHR ''a'', CHR ''f'', CHR 0xE9, CHR 0x0D, CHR 0x0A] =
       Inl ''UnicodeDecodeError''
   \<and> process_file (sample_world\<lparr>fs := (fs sample_world)
         (''/tmp/note'' := Inr [CHR ''c'', CHR ''a'', CHR ''f'', CHR 0xE9, CHR 0x0D, CHR 0x0A])\<rparr>)
       ''/tmp/note'' ''.txt'' =
       [''text'' \<mapsto> [CHR ''c'', CHR ''a'', CHR ''f'', CHR 0xEF, CHR 0xBF, CHR 0xBD, CHR 0x0A]]"
proof -
  have f: "fs (sample_world\<lparr>fs := (fs sample_world)
         (''/tmp/note'' := Inr [CHR ''c'', CHR ''a'', CHR ''f'', CHR 0xE9, CHR 0x0D, CHR 0x0A])\<rparr>)
      ''/tmp/note'' = Inr [CHR ''c'', CHR ''a'', CHR ''f'', CHR 0xE9, CHR 0x0D, CHR 0x0A]"
    by simp
  from txt_decoded_leniently [OF f]
  have "process_file (sample_world\<lparr>fs := (fs sample_world)
         (''/tmp/note'' := Inr [CHR ''c'', CHR ''a'', CHR ''f'', CHR 0xE9, CHR 0x0D, CHR 0x0A])\<rparr>)
       ''/tmp/note'' ''.txt'' =
       [''text'' \<mapsto> universal_newlines
          (utf8_decode_replace [CHR ''c'', CHR ''a'', CHR ''f'', CHR 0xE9, CHR 0x0D, CHR 0x0A])]"
    by (rule conjunct1)
  with f latin1_not_utf8 show ?thesis
    by (simp only: latin1_decoded simp_thms)
qed

end
